theory Spec2Isabelle
  imports Main
begin

section \<open>repoctl: configuration, dispatch and the reconciliation contracts\<close>

text \<open>
  The program is the Go command \<^verbatim>\<open>repoctl\<close>. Its entry point (\<^verbatim>\<open>main\<close>,
  \<^verbatim>\<open>ReadConfig\<close>, \<^verbatim>\<open>readIniInto\<close>, \<^verbatim>\<open>NewConfig\<close>, \<^verbatim>\<open>inform\<close>, \<^verbatim>\<open>Usage\<close> and the
  \<^verbatim>\<open>actions\<close> table) is embedded function by function. Go strings are byte strings
  (\<open>string\<close>), a \<^verbatim>\<open>nil\<close> pointer or \<^verbatim>\<open>nil\<close> error is \<open>None\<close>, an error value is its
  message, and everything written to a stream is kept, in order, in an output trace.
\<close>

subsection \<open>Go's \<^verbatim>\<open>path\<close> package, as far as the program calls it\<close>

text \<open>
  \<^verbatim>\<open>path.Clean\<close>, \<^verbatim>\<open>path.Split\<close>, \<^verbatim>\<open>path.Dir\<close> and \<^verbatim>\<open>path.Base\<close> of the Go standard
  library. \<open>clean_loop\<close> is the \<^verbatim>\<open>for r < n\<close> loop of \<^verbatim>\<open>Clean\<close>: its first argument is
  \<^verbatim>\<open>rooted\<close>, the second the unread input \<^verbatim>\<open>path[r:]\<close>, the third the output buffer and
  the last the index \<^verbatim>\<open>dotdot\<close>.
\<close>

definition at_sep :: "string \<Rightarrow> bool" where
  "at_sep rest = (case rest of [] \<Rightarrow> True | d # _ \<Rightarrow> d = CHR ''/'')"

fun backtrack :: "string \<Rightarrow> nat \<Rightarrow> nat \<Rightarrow> nat" where
  "backtrack buf dotdot 0 = 0"
| "backtrack buf dotdot (Suc w) =
     (if Suc w > dotdot \<and> buf ! Suc w \<noteq> CHR ''/'' then backtrack buf dotdot w else Suc w)"

function clean_loop :: "bool \<Rightarrow> string \<Rightarrow> string \<Rightarrow> nat \<Rightarrow> string" where
  "clean_loop rooted [] buf dotdot = buf"
| "clean_loop rooted (c # rest) buf dotdot =
     (if c = CHR ''/'' then clean_loop rooted rest buf dotdot
      else if c = CHR ''.'' \<and> at_sep rest then clean_loop rooted rest buf dotdot
      else if c = CHR ''.'' \<and> (case rest of [] \<Rightarrow> False | d # rest2 \<Rightarrow> d = CHR ''.'' \<and> at_sep rest2)
        then
          (if length buf > dotdot
             then clean_loop rooted (tl rest) (take (backtrack buf dotdot (length buf - 1)) buf) dotdot
           else if \<not> rooted
             then (let buf' = (if length buf > 0 then buf @ ''/'' else buf) @ ''..''
                   in clean_loop rooted (tl rest) buf' (length buf'))
           else clean_loop rooted (tl rest) buf dotdot)
      else
        (let buf' = (if rooted \<and> length buf \<noteq> 1 \<or> \<not> rooted \<and> length buf \<noteq> 0
                     then buf @ ''/'' else buf)
         in clean_loop rooted (dropWhile (\<lambda>x. x \<noteq> CHR ''/'') rest)
              (buf' @ c # takeWhile (\<lambda>x. x \<noteq> CHR ''/'') rest) dotdot))"
  by pat_completeness auto
termination
  by (relation "measure (\<lambda>(rooted, rest, buf, dotdot). length rest)")
     (auto simp: less_Suc_eq_le length_dropWhile_le)

definition Clean :: "string \<Rightarrow> string" where
  "Clean p =
     (if p = [] then ''.''
      else let rooted = (hd p = CHR ''/'');
               buf = (if rooted
                      then clean_loop True (tl p) ''/'' 1
                      else clean_loop False p [] 0)
           in if buf = [] then ''.'' else buf)"

definition Split :: "string \<Rightarrow> string \<times> string" where
  "Split p = (rev (dropWhile (\<lambda>x. x \<noteq> CHR ''/'') (rev p)),
              rev (takeWhile (\<lambda>x. x \<noteq> CHR ''/'') (rev p)))"

definition Dir :: "string \<Rightarrow> string" where
  "Dir p = Clean (fst (Split p))"

definition Base :: "string \<Rightarrow> string" where
  "Base p =
     (if p = [] then ''.''
      else let q = rev (dropWhile (\<lambda>x. x = CHR ''/'') (rev p));
               f = rev (takeWhile (\<lambda>x. x \<noteq> CHR ''/'') (rev q))
           in if f = [] then ''/'' else f)"

text \<open>\<^verbatim>\<open>path.Join(a, b)\<close> for two elements, the only way the program calls it.\<close>

definition Join2 :: "string \<Rightarrow> string \<Rightarrow> string" where
  "Join2 a b =
     (if a \<noteq> [] then Clean (a @ ''/'' @ b)
      else if b \<noteq> [] then Clean b
      else [])"

subsection \<open>Constants and data\<close>

definition progName :: string where "progName = ''repoctl''"
definition progVersion :: string where "progVersion = ''0.10''"
definition progDate :: string where "progDate = ''1. October 2014''"
definition defaultRepo :: string where "defaultRepo = ''/srv/abs/atlas.db.tar.gz''"

text \<open>\<^verbatim>\<open>defaultConfigPath\<close>; the argument is the value of the environment variable \<^verbatim>\<open>HOME\<close>.\<close>

definition defaultConfigPath :: "string \<Rightarrow> string" where
  "defaultConfigPath home = Join2 home ''.repo.conf''"

record IniConfig =
  Repo :: string
  AddParam :: "string list"
  RmParam :: "string list"

record Config =
  ConfigFile :: string
  Repository :: string
  database :: string
  path :: string
  AddParameters :: "string list"
  RemoveParameters :: "string list"
  Quiet :: bool
  Columnate :: bool
  Versioned :: bool
  Mode :: string
  Pending :: bool
  Duplicates :: bool
  Installed :: bool
  Synchronize :: bool
  Interactive :: bool
  Backup :: bool
  Args :: "string list"

text \<open>The zero value \<^verbatim>\<open>Config{}\<close>.\<close>

definition zeroConfig :: Config where
  "zeroConfig =
     \<lparr>ConfigFile = [], Repository = [], database = [], path = [],
      AddParameters = [], RemoveParameters = [], Quiet = False, Columnate = False,
      Versioned = False, Mode = [], Pending = False, Duplicates = False,
      Installed = False, Synchronize = False, Interactive = False, Backup = False,
      Args = []\<rparr>"

text \<open>
  An \<^verbatim>\<open>Action\<close> is a function value \<^verbatim>\<open>func(*Config) error\<close>. The table names seven
  functions; each constructor stands for one of them. Of the seven, only \<^verbatim>\<open>Usage\<close> has
  its body among the sources.
\<close>

datatype Action = fnList | fnUpdate | fnAdd | fnRemove | fnStatus | fnFilter | fnUsage

definition actions :: "string \<rightharpoonup> Action" where
  "actions = map_of
     [(''list'', fnList),
      (''ls'', fnList),
      (''update'', fnUpdate),
      (''add'', fnAdd),
      (''remove'', fnRemove),
      (''rm'', fnRemove),
      (''status'', fnStatus),
      (''filter'', fnFilter),
      (''help'', fnUsage),
      (''usage'', fnUsage)]"

subsection \<open>Output\<close>

datatype stream = Stdout | Stderr

type_synonym trace = "(stream \<times> string) list"

definition nl :: string where "nl = [CHR 0x0A]"

definition dq :: string where "dq = [CHR 0x22]"

text \<open>
  The verb \<^verbatim>\<open>%q\<close> of \<^verbatim>\<open>fmt\<close> on a string is \<^verbatim>\<open>strconv.Quote\<close>: the string between double
  quotes, byte by byte. A double quote and a backslash get a backslash in front; the other
  printable ASCII bytes (\<^verbatim>\<open>0x20\<close> to \<^verbatim>\<open>0x7e\<close>) stand for themselves; the control bytes 7 to
  13 are written \<^verbatim>\<open>\a \b \t \n \v \f \r\<close>; every other byte below \<^verbatim>\<open>0x20\<close> is written \<^verbatim>\<open>\x\<close>
  and its two lower-case hexadecimal digits.

  From \<^verbatim>\<open>0x7f\<close> on the model is Go's only in part. Go decodes bytes from \<^verbatim>\<open>0x80\<close> on as UTF-8
  and consults the library's table of printable runes, which is not modelled: \<open>quote_byte\<close>
  writes such a byte as Go writes one that is not part of a valid UTF-8 sequence, \<^verbatim>\<open>\x\<close>
  and two digits. The byte \<^verbatim>\<open>0x7f\<close> is written \<^verbatim>\<open>\x7f\<close>, as current Go does (older releases
  wrote \<^verbatim>\<open>\u007f\<close>). \<open>plain_ascii\<close> holds of the strings on which \<open>quoted\<close> is
  \<^verbatim>\<open>strconv.Quote\<close> without reservation: those of bytes below \<^verbatim>\<open>0x7f\<close>.
\<close>

definition hex_digit :: "nat \<Rightarrow> char" where
  "hex_digit n = ''0123456789abcdef'' ! (n mod 16)"

definition quote_byte :: "char \<Rightarrow> string" where
  "quote_byte c =
     (let n = (of_char c :: nat)
      in if c = CHR 0x22 \<or> c = CHR 0x5C then [CHR 0x5C, c]
         else if 32 \<le> n \<and> n < 127 then [c]
         else if n = 7 then [CHR 0x5C, CHR ''a'']
         else if n = 8 then [CHR 0x5C, CHR ''b'']
         else if n = 12 then [CHR 0x5C, CHR ''f'']
         else if n = 10 then [CHR 0x5C, CHR ''n'']
         else if n = 13 then [CHR 0x5C, CHR ''r'']
         else if n = 9 then [CHR 0x5C, CHR ''t'']
         else if n = 11 then [CHR 0x5C, CHR ''v'']
         else [CHR 0x5C, CHR ''x'', hex_digit (n div 16), hex_digit n])"

definition quoted :: "string \<Rightarrow> string" where
  "quoted s = dq @ concat (map quote_byte s) @ dq"



subsection \<open>\<^verbatim>\<open>Usage\<close>\<close>

text \<open>The help text, line by line; \<^verbatim>\<open>Usage\<close> prints every line with a newline after it.\<close>

definition usage_text :: "string list" where
  "usage_text =
     ['''',
      ''Manage local pacman repositories.'',
      '''',
      ''Commands available:'',
      '''',
      ''  list             List packages that belong to the managed repository.'',
      ''  ls               Options available are:'',
      ''                    -v --versions   show package versions along with name'',
      ''                    -d --duplicates mark packages with duplicate package files'',
      ''                    -p --pending    mark pending changes to the database'',
      ''                    -l --installed  mark packages that are locally installed'',
      ''                    -u --outdated   mark packages that are newer in AUR'',
      ''                    -a --all        same as -vpdlu'',
      '''',
      ''  filter <crit...> Filter list of packages by one or more criteria; each can'',
      ''                   optionally be prefixed by an exclamation mark ! to negate'',
      ''                   the filter.'',
      ''                   Filters available are:'',
      ''                    duplicates      files to be deleted or backed up'',
      ''                    pending         packages to be added/removed from database'',
      ''                    outdated        packages with newer versions in AUR'',
      ''                    missing         packages not found in AUR'',
      ''                    local           packages locally installed'',
      '''',
      ''  status           Show pending changes to the database and packages that can'',
      ''                   be updated.'',
      '''',
      ''  add <pkgname>    Add the latest package(s) with <pkgname> to the database'',
      ''                   and delete all obsolete package files.'',
      '''',
      ''  remove <pkgname> Remove the package(s) with <pkgname> from the database and'',
      ''  rm               delete all the corresponding package files.'',
      '''',
      ''  update           Automatically scan the repository for changes and update'',
      ''                   by changing the database and deleting obsolete package files.'',
      '''',
      ''  reset            Reset the repository database by removing it and adding all'',
      ''                   up-to-date packages while deleting obsolete package files.'',
      '''',
      ''                   Options available to add, remove, update, and reset are:'',
      ''                    -i --interactive  ask before doing anything destructive'',
      ''                    -b --backup       backup obsolete package files instead of'',
      ''                                      deleting; packages are put into backup/'',
      '''',
      ''  help             Show the usage for repoctl. Synonym for'',
      ''  usage             repoctl --help'',
      '''',
      ''NOTE: In all of these cases, <pkgname> is the name of the package, without'',
      ''anything else. For example: pacman, and not pacman-3.5.3-1-i686.pkg.tar.xz'',
      '''',
      ''General options available are:'',
      '''',
      '' -h --help      show this usage message'',
      '' -q --quiet     only show information when absolutely necessary'',
      '' -s --columns   show items in columns rather than lines'',
      '' -c --config    configuration file to load settings from'',
      ''    --repo      path to repository and database, such as'',
      ''                '' @ dq @ ''/srv/abs/atlas.db.tar.gz'' @ dq @ '''']"

text \<open>
  \<^verbatim>\<open>Usage\<close> ignores its argument, writes the banner and the help text to standard output
  and returns \<^verbatim>\<open>nil\<close>.
\<close>

definition Usage :: "Config option \<Rightarrow> trace \<Rightarrow> string option \<times> trace" where
  "Usage conf out =
     (None,
      out @ [(Stdout, progName @ '' '' @ progVersion @ '' ('' @ progDate @ '')'' @ nl),
             (Stdout, concat (map (\<lambda>l. l @ nl) usage_text))])"

subsection \<open>\<^verbatim>\<open>NewConfig\<close> and \<^verbatim>\<open>readIniInto\<close>\<close>

definition NewConfig :: "string \<Rightarrow> Config" where
  "NewConfig repo =
     zeroConfig\<lparr>Repository := repo, path := Dir repo, database := Base repo\<rparr>"

text \<open>
  The file system as the program reads it: \<open>files p = None\<close> when no file \<open>p\<close> exists,
  \<open>Some (Inl msg)\<close> when it exists and \<^verbatim>\<open>toml.DecodeFile\<close> fails on it with \<open>msg\<close>, and
  \<open>Some (Inr ini)\<close> when it decodes to \<open>ini\<close>.
\<close>

type_synonym files = "string \<rightharpoonup> string + IniConfig"

definition DecodeFile :: "files \<Rightarrow> string \<Rightarrow> string + IniConfig" where
  "DecodeFile fs p =
     (case fs p of
        None \<Rightarrow> Inl (''open '' @ p @ '': no such file or directory'')
      | Some r \<Rightarrow> r)"

definition FileExists :: "files \<Rightarrow> string \<Rightarrow> bool" where
  "FileExists fs p = (fs p \<noteq> None)"

definition readIniInto :: "files \<Rightarrow> string \<Rightarrow> Config \<Rightarrow> string + Config" where
  "readIniInto fs p conf =
     (case DecodeFile fs p of
        Inl err \<Rightarrow> Inl err
      | Inr ini \<Rightarrow>
          Inr ((if Repository conf = [] then conf\<lparr>Repository := Repo ini\<rparr> else conf)
                 \<lparr>AddParameters := AddParam ini, RemoveParameters := RmParam ini\<rparr>))"

subsection \<open>\<^verbatim>\<open>ReadConfig\<close>\<close>

text \<open>
  What \<^verbatim>\<open>flag.Parse\<close> leaves in the variables the flags are bound to, and the positional
  arguments \<^verbatim>\<open>flag.Args()\<close>. A flag that is not given has its registered default:
  \<open>defaultConfigPath\<close> for \<^verbatim>\<open>--config\<close>, the empty string for \<^verbatim>\<open>--repo\<close>, false for the
  rest. (A command line that \<^verbatim>\<open>pflag\<close> itself rejects never reaches \<^verbatim>\<open>ReadConfig\<close>'s
  own code.)
\<close>

record Flags =
  flag_config :: string
  flag_repo :: string
  flag_columns :: bool
  flag_quiet :: bool
  flag_help :: bool
  flag_versioned :: bool
  flag_pending :: bool
  flag_duplicates :: bool
  flag_installed :: bool
  flag_outdated :: bool
  flag_all :: bool
  flag_interactive :: bool
  flag_backup :: bool
  flag_args :: "string list"

definition default_flags :: "string \<Rightarrow> Flags" where
  "default_flags home =
     \<lparr>flag_config = defaultConfigPath home, flag_repo = [], flag_columns = False,
      flag_quiet = False, flag_help = False, flag_versioned = False, flag_pending = False,
      flag_duplicates = False, flag_installed = False, flag_outdated = False,
      flag_all = False, flag_interactive = False, flag_backup = False, flag_args = []\<rparr>"

text \<open>The \<^verbatim>\<open>Config\<close> the flag variables point into, after \<^verbatim>\<open>flag.Parse\<close>.\<close>

definition parsed :: "Flags \<Rightarrow> Config" where
  "parsed fl =
     zeroConfig\<lparr>ConfigFile := flag_config fl, Repository := flag_repo fl,
       Columnate := flag_columns fl, Quiet := flag_quiet fl,
       Versioned := flag_versioned fl, Pending := flag_pending fl,
       Duplicates := flag_duplicates fl, Installed := flag_installed fl,
       Synchronize := flag_outdated fl, Interactive := flag_interactive fl,
       Backup := flag_backup fl\<rparr>"

text \<open>
  The second half of \<^verbatim>\<open>ReadConfig\<close>, from the test \<^verbatim>\<open>conf.Repository == ""\<close> on. The
  result is the triple \<^verbatim>\<open>(conf, cmd, err)\<close> and the output so far.
\<close>

definition derive_and_dispatch ::
    "Flags \<Rightarrow> Config \<Rightarrow> trace \<Rightarrow> (Config option \<times> Action option \<times> string option) \<times> trace" where
  "derive_and_dispatch fl conf0 out0 =
     (let (conf1, out1) =
            (if Repository conf0 = []
             then (conf0\<lparr>Repository := defaultRepo\<rparr>,
                   out0 @ [(Stderr, ''Warning: missing repository, using '' @ quoted defaultRepo @ ''.'' @ nl)])
             else (conf0, out0));
          conf2 = conf1\<lparr>path := Dir (Repository conf1)\<rparr>;
          conf3 = conf2\<lparr>database := Base (Repository conf2)\<rparr>
      in case flag_args fl of
           [] \<Rightarrow> ((None, Some fnUsage, Some ''no action specified on command line''), out1)
         | arg0 # rest \<Rightarrow>
             (let conf4 = (if flag_all fl
                           then conf3\<lparr>Versioned := True, Pending := True, Duplicates := True,
                                  Installed := True, Synchronize := True\<rparr>
                           else conf3);
                  conf5 = conf4\<lparr>Args := rest\<rparr>
              in case actions arg0 of
                   None \<Rightarrow> ((None, Some fnUsage, Some (''unrecognized action '' @ arg0)), out1)
                 | Some cmd \<Rightarrow> ((Some conf5, Some cmd, None), out1)))"

definition ReadConfig ::
    "files \<Rightarrow> Flags \<Rightarrow> trace \<Rightarrow> (Config option \<times> Action option \<times> string option) \<times> trace" where
  "ReadConfig fs fl out =
     (let conf = parsed fl
      in if flag_help fl then ((None, Some fnUsage, None), out)
         else if FileExists fs (ConfigFile conf)
           then (case readIniInto fs (ConfigFile conf) conf of
                   Inl err \<Rightarrow> ((None, None, Some err), out)
                 | Inr conf' \<Rightarrow> derive_and_dispatch fl conf' out)
           else derive_and_dispatch fl conf
                  (out @ [(Stderr, ''Warning: missing config file '' @ quoted (ConfigFile conf) @ ''.'' @ nl)]))"

subsection \<open>\<^verbatim>\<open>inform\<close>\<close>

text \<open>
  The argument of \<^verbatim>\<open>inform\<close> is an \<^verbatim>\<open>interface{}\<close>: either an \<^verbatim>\<open>error\<close>, given here by its
  message, or any other value, given here by the text \<^verbatim>\<open>fmt.Fprintln\<close> prints for it.
\<close>

datatype informed = AnError string | AValue string

definition inform :: "Config \<Rightarrow> informed \<Rightarrow> trace \<Rightarrow> trace" where
  "inform c v out =
     (if \<not> Quiet c
      then (case v of
              AnError e \<Rightarrow> out @ [(Stderr, ''warning: '' @ e @ nl)]
            | AValue s \<Rightarrow> out @ [(Stderr, s @ nl)])
      else out)"

subsection \<open>\<^verbatim>\<open>main\<close>\<close>

text \<open>
  The bodies of \<^verbatim>\<open>List\<close>, \<^verbatim>\<open>Update\<close>, \<^verbatim>\<open>Add\<close>, \<^verbatim>\<open>Remove\<close>, \<^verbatim>\<open>Status\<close> and \<^verbatim>\<open>Filter\<close> are
  not among the sources. \<^verbatim>\<open>main\<close> is therefore given them as a parameter \<open>run\<close>: what the
  action writes and the \<^verbatim>\<open>error\<close> it returns, as its type \<^verbatim>\<open>func(*Config) error\<close> has it.
\<close>

type_synonym runner = "Action \<Rightarrow> Config option \<Rightarrow> trace \<Rightarrow> string option \<times> trace"

definition call :: "runner \<Rightarrow> Action \<Rightarrow> Config option \<Rightarrow> trace \<Rightarrow> string option \<times> trace" where
  "call run a conf out = (if a = fnUsage then Usage conf out else run a conf out)"

text \<open>
  The outcome of a run of the process: its exit status, what it wrote, and the functions of
  type \<^verbatim>\<open>Action\<close> that \<^verbatim>\<open>main\<close> called. A process whose \<^verbatim>\<open>main\<close> returns exits with status
  0; calling a \<^verbatim>\<open>nil\<close> function value panics, and a panicking Go process exits with status 2.
\<close>

record Outcome =
  status :: nat
  written :: trace
  invoked :: "Action list"

definition main :: "runner \<Rightarrow> files \<Rightarrow> Flags \<Rightarrow> Outcome" where
  "main run fs fl =
     (case ReadConfig fs fl [] of
        ((conf, cmd, err), out) \<Rightarrow>
          (case err of
             Some e \<Rightarrow>
               \<lparr>status = 1,
                written = snd (Usage None (out @ [(Stdout, ''Error: '' @ e @ nl), (Stdout, nl)])),
                invoked = [fnUsage]\<rparr>
           | None \<Rightarrow>
               (case cmd of
                  None \<Rightarrow> \<lparr>status = 2, written = out, invoked = []\<rparr>
                | Some a \<Rightarrow> \<lparr>status = 0, written = snd (call run a conf out), invoked = [a]\<rparr>)))"

subsection \<open>The commands declared in \<^verbatim>\<open>addremove.go\<close>\<close>

text \<open>
  \<^verbatim>\<open>addremove.go\<close> declares three \<^verbatim>\<open>cobra.Command\<close> values. A command is modelled by the
  fields the declarations set: \<^verbatim>\<open>Use\<close>, \<^verbatim>\<open>Aliases\<close>, \<^verbatim>\<open>Short\<close>, \<^verbatim>\<open>Long\<close> (line by line, each
  line ending in a newline) and \<^verbatim>\<open>Example\<close>. Their \<^verbatim>\<open>Run\<close> functions call into the \<^verbatim>\<open>repo\<close>
  library and hand the error to \<^verbatim>\<open>dieOnError\<close>; neither is among the sources, and nothing
  among the sources registers these commands or dispatches to them.
\<close>

record Command =
  Use :: string
  Aliases :: "string list"
  Short :: string
  Long :: "string list"
  Example :: string

definition ResetCmd :: Command where
  "ResetCmd =
     \<lparr>Use = ''reset'',
      Aliases = [],
      Short = ''recreate repository database'',
      Long =
       [''Delete the repository database and re-add all packages in repository.'',
        ''    '',
        ''  Essentially, this command deletes the repository database and'',
        ''  recreates it by running the update command.''],
      Example = []\<rparr>"

definition AddCmd :: Command where
  "AddCmd =
     \<lparr>Use = ''add <pkgfile...>'',
      Aliases = [],
      Short = ''copy and add packages to the repository'',
      Long =
       [''Add (and copy if necessary) the package file to the repository.'',
        '''',
        ''  Similarly to the repo-add script, this command copies the package'',
        ''  file to the repository (if not already there) and adds the package to'',
        ''  the database.  Exactly this package is added to the database, this'',
        ''  allows you to downgrade a package in the repository.'',
        '''',
        ''  Any other package files in the repository are deleted or backed up,'',
        ''  depending on whether the backup option is given. If the backup option'',
        ''  is given, the '' @ dq @ ''obsolete'' @ dq @ '' package files are moved to a backup'',
        ''  directory of choice.'',
        '''',
        ''  Note: since version 0.14, the semantic meaning of this command has'',
        ''        changed. See the update command for the old behavior.''],
      Example = ''  repoctl add ./fairsplit-1.0.pkg.tar.gz''\<rparr>"

definition RemoveCmd :: Command where
  "RemoveCmd =
     \<lparr>Use = ''remove <pkgname...>'',
      Aliases = [''rm''],
      Short = ''remove and delete packages from the database'',
      Long =
       [''Remove and delete the package files from the repository.'',
        '''',
        ''  This command removes the specified package from the repository'',
        ''  database, and deletes any associated package files, unless the backup'',
        ''  option is given, in which case the package files are moved to the'',
        ''  backup directory.''],
      Example = []\<rparr>"

text \<open>\<^verbatim>\<open>Command.Name\<close> of \<^verbatim>\<open>cobra\<close>: the first word of \<^verbatim>\<open>Use\<close>.\<close>

definition command_name :: "Command \<Rightarrow> string" where
  "command_name c = takeWhile (\<lambda>x. x \<noteq> CHR '' '') (Use c)"

text \<open>A configuration file used in the examples below.\<close>

definition example_ini :: IniConfig where
  "example_ini = \<lparr>Repo = ''/var/repo/home.db.tar.gz'', AddParam = [''-s''], RmParam = [''-q'']\<rparr>"

section \<open>The reconciliation engine's contracts\<close>

text \<open>
  The filename parser, the version comparator and the plan executor are described by the
  specification, and their code is not among the sources (only the \<^verbatim>\<open>Backup\<close> field, its
  comment and the help text are). Each definition of this section is therefore written
  from the specification's words and says so.
\<close>

subsection \<open>Package identity: parsing and serializing a filename\<close>

text \<open>
  Modelled from the spec: the record \<^verbatim>\<open>PackageIdentity\<close> of the data model,
  \<^verbatim>\<open>{name, version, release, architecture, sourcePath}\<close>. The parser's code is missing.
\<close>

record PackageIdentity =
  name :: string
  version :: string
  release :: string
  architecture :: string
  sourcePath :: string

text \<open>
  Modelled from the spec: the error \<^verbatim>\<open>MalformedFilename\<close> of the parser, carrying the
  offending filename. The parser's code is missing.
\<close>

datatype parse_error = MalformedFilename string

text \<open>
  Modelled from the spec: splitting at the last dash, for the "dash-separated trailing
  fields" of the filename grammar; \<open>None\<close> when there is no dash. The parser's code is
  missing.
\<close>

definition rsplit_dash :: "string \<Rightarrow> (string \<times> string) option" where
  "rsplit_dash s =
     (if CHR ''-'' \<in> set s
      then Some (butlast (rev (dropWhile (\<lambda>x. x \<noteq> CHR ''-'') (rev s))),
                 rev (takeWhile (\<lambda>x. x \<noteq> CHR ''-'') (rev s)))
      else None)"

text \<open>
  Modelled from the spec: removing the extension \<^verbatim>\<open>.<ext>\<close> that ends the canonical
  filename; \<open>None\<close> for a file with another extension. The parser's code is missing.
\<close>

definition strip_ext :: "string \<Rightarrow> string \<Rightarrow> string option" where
  "strip_ext ext f =
     (let n = length f - length (CHR ''.'' # ext)
      in if length (CHR ''.'' # ext) \<le> length f \<and> drop n f = CHR ''.'' # ext
         then Some (take n f) else None)"

text \<open>
  Modelled from the spec: the Package Identity Parser, which the sources do not contain.
  A filename has the canonical format \<^verbatim>\<open>name-version-release-architecture.<ext>\<close>; parsing
  is purely syntactic and fails with \<^verbatim>\<open>MalformedFilename\<close> unless the filename decomposes
  into the four fields, the last three being the dash-separated trailing fields (so the
  name may itself contain dashes). The extension is that of the repository's package
  archives and is a parameter. No field may be empty. An architecture is any string
  without a dash: unknown architectures are accepted.
\<close>

definition parse :: "string \<Rightarrow> string \<Rightarrow> parse_error + PackageIdentity" where
  "parse ext f =
     (case strip_ext ext f of
        None \<Rightarrow> Inl (MalformedFilename f)
      | Some stem \<Rightarrow>
          (case rsplit_dash stem of
             None \<Rightarrow> Inl (MalformedFilename f)
           | Some (r1, arch) \<Rightarrow>
               (case rsplit_dash r1 of
                  None \<Rightarrow> Inl (MalformedFilename f)
                | Some (r2, rel) \<Rightarrow>
                    (case rsplit_dash r2 of
                       None \<Rightarrow> Inl (MalformedFilename f)
                     | Some (nm, ver) \<Rightarrow>
                         if nm = [] \<or> ver = [] \<or> rel = [] \<or> arch = []
                         then Inl (MalformedFilename f)
                         else Inr \<lparr>name = nm, version = ver, release = rel,
                                   architecture = arch, sourcePath = f\<rparr>))))"

text \<open>
  Modelled from the spec: re-serializing an identity to the canonical filename
  \<^verbatim>\<open>name-version-release-architecture.<ext>\<close>. The serializer's code is missing.
\<close>

definition serialize :: "string \<Rightarrow> PackageIdentity \<Rightarrow> string" where
  "serialize ext p =
     name p @ ''-'' @ version p @ ''-'' @ release p @ ''-'' @ architecture p @ ''.'' @ ext"

subsection \<open>The version comparator\<close>

text \<open>
  Modelled from the spec: the three outcomes of comparing two versions. The comparator's
  code is missing.
\<close>

datatype ordering = LT | EQ | GT

text \<open>
  Modelled from the spec: a run of a version string, numeric (kept as its numeric value,
  which normalizes leading zeros and ignores the run's length) or alphabetic. The
  comparator's code is missing.
\<close>

datatype run = Num nat | Alpha string








text \<open>
  Modelled from the spec: "numeric runs compare by numeric value". The comparator's code
  is missing.
\<close>

definition cmp_nat :: "nat \<Rightarrow> nat \<Rightarrow> ordering" where
  "cmp_nat a b = (if a < b then LT else if a = b then EQ else GT)"






text \<open>Modelled from the spec: the outcome with the two sides exchanged.\<close>

fun flip :: "ordering \<Rightarrow> ordering" where
  "flip LT = GT"
| "flip EQ = EQ"
| "flip GT = LT"

subsection \<open>The plan executor\<close>

text \<open>
  Modelled from the spec: the state the executor mutates, whose code is missing. \<open>disk\<close>
  holds the files of the (flat) repository directory, by file name, with their contents;
  \<open>backup_dir\<close> is the backup subdirectory, \<open>None\<close> as long as it does not exist; \<open>index\<close>
  is the repository index, a list of entries (package name, package file the entry was
  added from), one per package name.
\<close>

record repo =
  disk :: "string \<rightharpoonup> string"
  backup_dir :: "(string \<rightharpoonup> string) option"
  index :: "(string \<times> string) list"

text \<open>
  Modelled from the spec: the primitive mutations of a plan, "copy-or-move file into
  repo, call index add, call index remove, delete or back up obsolete files". The
  executor's code is missing. \<open>CopyIn f c\<close> brings the package file named \<open>f\<close> with
  contents \<open>c\<close> into the repository directory; \<open>IndexAdd n f\<close> records the file \<open>f\<close> as
  the entry of package \<open>n\<close>; \<open>IndexRemove n\<close> drops the entry of \<open>n\<close>; \<open>Dispose f\<close> deletes
  or backs up the obsolete file \<open>f\<close>.
\<close>

datatype mutation =
    CopyIn string string
  | IndexAdd string string
  | IndexRemove string
  | Dispose string

text \<open>
  Modelled from the spec: the files of the backup subdirectory, none as long as the
  subdirectory does not exist. The executor's code is missing.
\<close>

definition backed_up :: "repo \<Rightarrow> (string \<rightharpoonup> string)" where
  "backed_up s = (case backup_dir s of None \<Rightarrow> Map.empty | Some b \<Rightarrow> b)"

text \<open>
  Modelled from the spec: the backup policy, whose code is missing. "If backup mode is
  enabled, obsolete files are moved into a backup subdirectory (created on demand) with an
  added suffix marking them as backed up, rather than deleted; if disabled, they are
  deleted outright." The suffix is the \<^verbatim>\<open>.bak\<close> of the comment on \<^verbatim>\<open>Config.Backup\<close>. A
  file that is not in the repository directory cannot be disposed of, and the state stays
  as it is.
\<close>

definition dispose :: "bool \<Rightarrow> string \<Rightarrow> repo \<Rightarrow> repo" where
  "dispose backup f s =
     (case disk s f of
        None \<Rightarrow> s
      | Some c \<Rightarrow>
          if backup
          then s\<lparr>disk := (disk s)(f := None),
                 backup_dir := Some ((backed_up s)(f @ ''.bak'' \<mapsto> c))\<rparr>
          else s\<lparr>disk := (disk s)(f := None)\<rparr>)"

text \<open>
  Modelled from the spec: the effect of one mutation that succeeds, under the backup mode
  given first. The executor's code is missing; a primitive that fails is not modelled.
\<close>

fun exec1 :: "bool \<Rightarrow> mutation \<Rightarrow> repo \<Rightarrow> repo" where
  "exec1 backup (CopyIn f c) s = s\<lparr>disk := (disk s)(f \<mapsto> c)\<rparr>"
| "exec1 backup (IndexAdd n f) s = s\<lparr>index := (n, f) # filter (\<lambda>e. fst e \<noteq> n) (index s)\<rparr>"
| "exec1 backup (IndexRemove n) s = s\<lparr>index := filter (\<lambda>e. fst e \<noteq> n) (index s)\<rparr>"
| "exec1 backup (Dispose f) s = dispose backup f s"


fun states :: "bool \<Rightarrow> mutation list \<Rightarrow> repo \<Rightarrow> repo list" where
  "states backup [] s = [s]"
| "states backup (m # ms) s = s # states backup ms (exec1 backup m s)"


text \<open>
  Modelled from the spec: "the index never references a missing file": every entry of the
  index refers to a file of the repository directory.
\<close>

definition index_on_disk :: "repo \<Rightarrow> bool" where
  "index_on_disk s = list_all (\<lambda>e. disk s (snd e) \<noteq> None) (index s)"




definition example_repo :: repo where
  "example_repo =
     \<lparr>disk = [''pkg-1.0-1-x86_64.pkg.tar.xz'' \<mapsto> ''old contents''],
      backup_dir = None,
      index = [(''pkg'', ''pkg-1.0-1-x86_64.pkg.tar.xz'')]\<rparr>"

section \<open>Properties of the configuration and dispatch code\<close>

subsection \<open>Facts about \<^verbatim>\<open>ReadConfig\<close> and \<^verbatim>\<open>main\<close>\<close>

lemma defaultRepo_nonempty: "defaultRepo \<noteq> []"
  by (simp add: defaultRepo_def)

lemma defaultConfigPath_example: "defaultConfigPath ''/home/u'' = ''/home/u/.repo.conf''"
  by code_simp

lemma Dir_Base_defaultRepo: "Dir defaultRepo = ''/srv/abs''" "Base defaultRepo = ''atlas.db.tar.gz''"
  by code_simp+

lemma ConfigFile_parsed: "ConfigFile (parsed fl) = flag_config fl"
  by (simp add: parsed_def zeroConfig_def)

lemma Repository_parsed: "Repository (parsed fl) = flag_repo fl"
  by (simp add: parsed_def zeroConfig_def)

lemma derive_and_dispatch_conf:
  assumes "fst (fst (derive_and_dispatch fl conf out)) = Some c"
  shows "path c = Dir (Repository c) \<and> database c = Base (Repository c)
       \<and> Repository c = (if Repository conf = [] then defaultRepo else Repository conf)
       \<and> AddParameters c = AddParameters conf \<and> RemoveParameters c = RemoveParameters conf"
  using assms
  by (auto simp: derive_and_dispatch_def Let_def split: list.splits option.splits if_splits)



lemma derive_and_dispatch_cmd:
  "\<exists>a. fst (snd (fst (derive_and_dispatch fl conf out))) = Some a"
  by (auto simp: derive_and_dispatch_def Let_def split: list.splits option.splits)


lemma ReadConfig_Some:
  assumes "fst (fst (ReadConfig fs fl out)) = Some c"
  shows "\<not> flag_help fl \<and>
         (\<exists>conf0 out0. fst (fst (derive_and_dispatch fl conf0 out0)) = Some c \<and>
            (fs (flag_config fl) = None \<and> conf0 = parsed fl \<or>
             (\<exists>ini. fs (flag_config fl) = Some (Inr ini) \<and>
                    readIniInto fs (flag_config fl) (parsed fl) = Inr conf0)))"
proof (cases "fs (flag_config fl)")
  case None
  with assms show ?thesis
    by (auto simp: ReadConfig_def Let_def ConfigFile_parsed FileExists_def split: if_splits)
next
  case (Some r)
  with assms show ?thesis
    by (cases r)
       (auto simp: ReadConfig_def Let_def ConfigFile_parsed FileExists_def readIniInto_def
          DecodeFile_def split: if_splits sum.splits)
qed

lemma readIniInto_Inr:
  assumes "DecodeFile fs p = Inr ini"
  shows "\<exists>conf'. readIniInto fs p conf = Inr conf'
          \<and> Repository conf' = (if Repository conf = [] then Repo ini else Repository conf)
          \<and> AddParameters conf' = AddParam ini \<and> RemoveParameters conf' = RmParam ini"
  using assms by (simp add: readIniInto_def)


lemma ReadConfig_cmd:
  "snd (snd (fst (ReadConfig fs fl out))) = None \<Longrightarrow> \<exists>a. fst (snd (fst (ReadConfig fs fl out))) = Some a"
  by (cases "fs (flag_config fl)")
     (auto simp: ReadConfig_def Let_def ConfigFile_parsed FileExists_def
        derive_and_dispatch_cmd split: sum.splits if_splits)

lemma ReadConfig_unrecognized:
  assumes "\<not> flag_help fl" "\<forall>e. fs (flag_config fl) \<noteq> Some (Inl e)"
      and "flag_args fl = a # rest" "actions a = None"
  shows "fst (ReadConfig fs fl out) = (None, Some fnUsage, Some (''unrecognized action '' @ a))"
proof (cases "fs (flag_config fl)")
  case None
  with assms show ?thesis
    by (simp add: ReadConfig_def Let_def ConfigFile_parsed FileExists_def
          derive_and_dispatch_def split: prod.splits)
next
  case (Some r)
  with assms show ?thesis
    by (cases r)
       (simp_all add: ReadConfig_def Let_def ConfigFile_parsed FileExists_def readIniInto_def
          DecodeFile_def derive_and_dispatch_def split: prod.splits)
qed

lemma main_on_error:
  assumes "snd (snd (fst (ReadConfig fs fl []))) = Some e"
  shows "main run fs fl =
           \<lparr>status = 1,
            written = snd (Usage None (snd (ReadConfig fs fl []) @ [(Stdout, ''Error: '' @ e @ nl), (Stdout, nl)])),
            invoked = [fnUsage]\<rparr>"
  using assms by (cases "ReadConfig fs fl []") (auto simp: main_def)

lemma main_on_success:
  assumes "ReadConfig fs fl [] = ((conf, Some a, None), out)"
  shows "main run fs fl = \<lparr>status = 0, written = snd (call run a conf out), invoked = [a]\<rparr>"
  using assms by (simp add: main_def)

text \<open>
  \<^verbatim>\<open>main\<close> calls \<^verbatim>\<open>cmd(conf)\<close> as a statement: whatever error the action returns, the
  process ends with status 0 once \<^verbatim>\<open>ReadConfig\<close> has succeeded.
\<close>

lemma main_discards_action_error:
  assumes "ReadConfig fs fl [] = ((conf, Some a, None), out)"
  shows "status (main run fs fl) = 0"
  using assms by (simp add: main_on_success)


subsection \<open>C1: the exit status\<close>




subsection \<open>C2: the operations the table offers\<close>

text \<open>
  Claim C2 says each of \<^verbatim>\<open>list\<close>, \<^verbatim>\<open>status\<close>, \<^verbatim>\<open>filter\<close>, \<^verbatim>\<open>add\<close>, \<^verbatim>\<open>remove\<close>,
  \<^verbatim>\<open>update\<close> and \<^verbatim>\<open>reset\<close> is dispatched to an action. The code at \<^verbatim>\<open>repoctl reset\<close>
  (no configuration file): the help text documents \<^verbatim>\<open>reset\<close> and \<^verbatim>\<open>addremove.go\<close>
  declares a command of that name, but the table \<^verbatim>\<open>main\<close> dispatches through has no entry
  for it: \<^verbatim>\<open>ReadConfig\<close> returns \<^verbatim>\<open>unrecognized action reset\<close> and the process ends with
  status 1 after printing the usage. The other six names are in the table.
\<close>

theorem reset_is_unrecognized:
  "actions ''reset'' = None
   \<and> command_name ResetCmd = ''reset''
   \<and> ''  reset            Reset the repository database by removing it and adding all'' \<in> set usage_text
   \<and> fst (ReadConfig Map.empty ((default_flags ''/home/u'')\<lparr>flag_args := [''reset'']\<rparr>) [])
       = (None, Some fnUsage, Some ''unrecognized action reset'')
   \<and> status (main run Map.empty ((default_flags ''/home/u'')\<lparr>flag_args := [''reset'']\<rparr>)) = 1
   \<and> invoked (main run Map.empty ((default_flags ''/home/u'')\<lparr>flag_args := [''reset'']\<rparr>)) = [fnUsage]
   \<and> map actions [''list'', ''status'', ''filter'', ''add'', ''remove'', ''update'']
       = [Some fnList, Some fnStatus, Some fnFilter, Some fnAdd, Some fnRemove, Some fnUpdate]"
proof -
  let ?fl = "(default_flags ''/home/u'')\<lparr>flag_args := [''reset'']\<rparr>"
  have a: "actions ''reset'' = None" by (simp add: actions_def)
  have r: "fst (ReadConfig Map.empty ?fl []) = (None, Some fnUsage, Some (''unrecognized action '' @ ''reset''))"
    by (rule ReadConfig_unrecognized [where rest = "[]"]) (simp_all add: default_flags_def a)
  then have e: "snd (snd (fst (ReadConfig Map.empty ?fl []))) = Some ''unrecognized action reset''"
    by simp
  have u: "''  reset            Reset the repository database by removing it and adding all'' \<in> set usage_text"
    by (simp add: usage_text_def)
  have m: "map actions [''list'', ''status'', ''filter'', ''add'', ''remove'', ''update'']
       = [Some fnList, Some fnStatus, Some fnFilter, Some fnAdd, Some fnRemove, Some fnUpdate]"
    by (simp add: actions_def)
  have c: "command_name ResetCmd = ''reset''"
    by (simp add: command_name_def ResetCmd_def)
  from a c r u m show ?thesis by (simp add: main_on_error [OF e])
qed

subsection \<open>C7: warnings are written to standard error\<close>












subsection \<open>C8: \<^verbatim>\<open>inform\<close> is silent exactly when \<^verbatim>\<open>Quiet\<close> is set\<close>

text \<open>
  Claim C8: with \<^verbatim>\<open>Quiet\<close> set \<^verbatim>\<open>inform\<close> writes nothing on any stream, whatever it is
  given, and it writes its warning only when \<^verbatim>\<open>Quiet\<close> is unset. The output trace after
  \<^verbatim>\<open>inform\<close> is the trace before it if and only if \<^verbatim>\<open>Quiet\<close> is set.
\<close>

theorem inform_silent_iff_quiet:
  "(inform c v out = out) = Quiet c"
  by (cases v) (simp_all add: inform_def)

subsection \<open>C9: the \<^verbatim>\<open>--repo\<close> flag is not overwritten by the configuration file\<close>

text \<open>
  Claim C9: \<^verbatim>\<open>readIniInto\<close> assigns the file's \<^verbatim>\<open>repo\<close> to \<^verbatim>\<open>Repository\<close> only when
  \<^verbatim>\<open>Repository\<close> is still empty, and always takes \<^verbatim>\<open>AddParameters\<close> and
  \<^verbatim>\<open>RemoveParameters\<close> from the file; so a repository given with \<^verbatim>\<open>--repo\<close> is what
  \<^verbatim>\<open>ReadConfig\<close> returns. The first conjunct is \<^verbatim>\<open>readIniInto\<close> on a file that decodes;
  the second and third are \<^verbatim>\<open>ReadConfig\<close> as a whole.
\<close>

theorem repo_flag_not_overwritten:
  "(DecodeFile fs p = Inr ini \<longrightarrow>
      (\<exists>conf'. readIniInto fs p conf = Inr conf'
         \<and> Repository conf' = (if Repository conf = [] then Repo ini else Repository conf)
         \<and> AddParameters conf' = AddParam ini \<and> RemoveParameters conf' = RmParam ini))
   \<and> (fst (fst (ReadConfig fs fl out)) = Some c \<longrightarrow> flag_repo fl \<noteq> [] \<longrightarrow>
        Repository c = flag_repo fl)
   \<and> (fst (fst (ReadConfig fs fl out)) = Some c \<longrightarrow> fs (flag_config fl) = Some (Inr ini') \<longrightarrow>
        AddParameters c = AddParam ini' \<and> RemoveParameters c = RmParam ini'
        \<and> (flag_repo fl = [] \<longrightarrow> Repo ini' \<noteq> [] \<longrightarrow> Repository c = Repo ini'))"
proof (intro conjI impI)
  assume "DecodeFile fs p = Inr ini"
  then show "\<exists>conf'. readIniInto fs p conf = Inr conf'
         \<and> Repository conf' = (if Repository conf = [] then Repo ini else Repository conf)
         \<and> AddParameters conf' = AddParam ini \<and> RemoveParameters conf' = RmParam ini"
    by (rule readIniInto_Inr)
next
  assume c: "fst (fst (ReadConfig fs fl out)) = Some c" and f: "flag_repo fl \<noteq> []"
  from ReadConfig_Some [OF c] obtain conf0 out0 where
    d: "fst (fst (derive_and_dispatch fl conf0 out0)) = Some c" and
    o: "fs (flag_config fl) = None \<and> conf0 = parsed fl \<or>
        (\<exists>ini. fs (flag_config fl) = Some (Inr ini) \<and>
               readIniInto fs (flag_config fl) (parsed fl) = Inr conf0)"
    by blast
  from o f have "Repository conf0 = flag_repo fl"
    by (auto simp: Repository_parsed readIniInto_def DecodeFile_def)
  with derive_and_dispatch_conf [OF d] f show "Repository c = flag_repo fl" by simp
next
  assume c: "fst (fst (ReadConfig fs fl out)) = Some c"
     and i: "fs (flag_config fl) = Some (Inr ini')"
  from ReadConfig_Some [OF c] i obtain conf0 out0 where
    d: "fst (fst (derive_and_dispatch fl conf0 out0)) = Some c" and
    o: "readIniInto fs (flag_config fl) (parsed fl) = Inr conf0"
    by auto
  from o i have p: "AddParameters conf0 = AddParam ini'" "RemoveParameters conf0 = RmParam ini'"
      "Repository conf0 = (if flag_repo fl = [] then Repo ini' else flag_repo fl)"
    by (auto simp: readIniInto_def DecodeFile_def Repository_parsed)
  from derive_and_dispatch_conf [OF d] p
  show "AddParameters c = AddParam ini'" "RemoveParameters c = RmParam ini'" by simp_all
  show "Repository c = Repo ini'" if "flag_repo fl = []" "Repo ini' \<noteq> []"
    using derive_and_dispatch_conf [OF d] p that by simp
qed

text \<open>
  The theorem at \<^verbatim>\<open>repoctl --repo /srv/mine.db.tar.gz list\<close> with a configuration file
  that names another repository: the flag's repository is kept and the parameters are the
  file's. On the zero configuration \<^verbatim>\<open>readIniInto\<close> takes the file's repository.
\<close>

theorem repo_flag_not_overwritten_witness:
  "DecodeFile [''/home/u/.repo.conf'' \<mapsto> Inr example_ini] ''/home/u/.repo.conf'' = Inr example_ini
   \<and> (\<exists>c. fst (fst (ReadConfig [''/home/u/.repo.conf'' \<mapsto> Inr example_ini]
                  ((default_flags ''/home/u'')\<lparr>flag_repo := ''/srv/mine.db.tar.gz'', flag_args := [''list'']\<rparr>) []))
             = Some c
          \<and> Repository c = ''/srv/mine.db.tar.gz''
          \<and> AddParameters c = [''-s''] \<and> RemoveParameters c = [''-q''])
   \<and> (\<exists>c'. readIniInto [''/home/u/.repo.conf'' \<mapsto> Inr example_ini] ''/home/u/.repo.conf'' zeroConfig = Inr c'
          \<and> Repository c' = ''/var/repo/home.db.tar.gz'')"
proof -
  let ?fs = "[''/home/u/.repo.conf'' \<mapsto> (Inr example_ini :: string + IniConfig)]"
  let ?fl = "(default_flags ''/home/u'')\<lparr>flag_repo := ''/srv/mine.db.tar.gz'', flag_args := [''list'']\<rparr>"
  have d: "DecodeFile ?fs ''/home/u/.repo.conf'' = Inr example_ini"
    by (simp add: DecodeFile_def)
  have cfg: "flag_config ?fl = ''/home/u/.repo.conf''"
    by (simp add: default_flags_def defaultConfigPath_example)
  obtain c where c: "fst (fst (ReadConfig ?fs ?fl [])) = Some c"
    by (simp add: ReadConfig_def derive_and_dispatch_def parsed_def default_flags_def
          FileExists_def DecodeFile_def readIniInto_def actions_def Let_def zeroConfig_def
          defaultConfigPath_example)
  have f: "flag_repo ?fl \<noteq> []" "flag_repo ?fl = ''/srv/mine.db.tar.gz''" by simp_all
  have i: "?fs (flag_config ?fl) = Some (Inr example_ini)" by (simp add: cfg)
  note t = repo_flag_not_overwritten [of ?fs "''/home/u/.repo.conf''" example_ini zeroConfig ?fl "[]" c example_ini]
  from t d obtain c' where c': "readIniInto ?fs ''/home/u/.repo.conf'' zeroConfig = Inr c'"
      "Repository c' = (if Repository zeroConfig = [] then Repo example_ini else Repository zeroConfig)"
    by blast
  from t c f(1) have r: "Repository c = flag_repo ?fl" by blast
  from t c i have p: "AddParameters c = AddParam example_ini" "RemoveParameters c = RmParam example_ini"
    by blast+
  from d c r p c' show ?thesis
    by (simp add: example_ini_def zeroConfig_def)
qed

subsection \<open>C10: \<^verbatim>\<open>path\<close> and \<^verbatim>\<open>database\<close> are derived from \<^verbatim>\<open>Repository\<close>\<close>

text \<open>
  Claim C10 says that after \<^verbatim>\<open>NewConfig\<close> or \<^verbatim>\<open>ReadConfig\<close> the configuration has
  \<^verbatim>\<open>path == Dir(Repository)\<close> and \<^verbatim>\<open>database == Base(Repository)\<close> with \<^verbatim>\<open>Repository\<close>
  non-empty. \<^verbatim>\<open>NewConfig\<close> substitutes no default: on the empty string it returns a
  configuration whose \<^verbatim>\<open>Repository\<close> is empty (and whose path and database are both
  \<^verbatim>\<open>.\<close>).
\<close>

theorem NewConfig_empty_counterexample:
  "Repository (NewConfig '''') = '''' \<and> path (NewConfig '''') = ''.'' \<and> database (NewConfig '''') = ''.''"
proof -
  have "Dir [] = ''.''" "Base [] = ''.''" by code_simp+
  then show ?thesis by (simp add: NewConfig_def zeroConfig_def)
qed

text \<open>
  C10 as amended. \<^verbatim>\<open>NewConfig(repo)\<close> keeps \<^verbatim>\<open>repo\<close> as it is given and derives path and
  database from it. A configuration returned by \<^verbatim>\<open>ReadConfig\<close> has path and database
  derived from its \<^verbatim>\<open>Repository\<close>, which is not empty; when neither \<^verbatim>\<open>--repo\<close> nor the
  configuration file gives a repository it is the default \<^verbatim>\<open>/srv/abs/atlas.db.tar.gz\<close>,
  with path \<^verbatim>\<open>/srv/abs\<close> and database \<^verbatim>\<open>atlas.db.tar.gz\<close>.
\<close>

theorem path_database_derived:
  "(path (NewConfig repo) = Dir (Repository (NewConfig repo))
      \<and> database (NewConfig repo) = Base (Repository (NewConfig repo))
      \<and> Repository (NewConfig repo) = repo)
   \<and> (fst (fst (ReadConfig fs fl out)) = Some c \<longrightarrow>
        path c = Dir (Repository c) \<and> database c = Base (Repository c) \<and> Repository c \<noteq> [])
   \<and> (fst (fst (ReadConfig fs fl out)) = Some c \<longrightarrow> flag_repo fl = [] \<longrightarrow>
        (\<forall>ini. fs (flag_config fl) = Some (Inr ini) \<longrightarrow> Repo ini = []) \<longrightarrow>
        Repository c = defaultRepo \<and> path c = ''/srv/abs'' \<and> database c = ''atlas.db.tar.gz'')"
proof (intro conjI impI)
  show "path (NewConfig repo) = Dir (Repository (NewConfig repo))"
       "database (NewConfig repo) = Base (Repository (NewConfig repo))"
       "Repository (NewConfig repo) = repo"
    by (simp_all add: NewConfig_def)
next
  assume c: "fst (fst (ReadConfig fs fl out)) = Some c"
  from ReadConfig_Some [OF c] obtain conf0 out0 where
    d: "fst (fst (derive_and_dispatch fl conf0 out0)) = Some c" by blast
  from derive_and_dispatch_conf [OF d]
  show "path c = Dir (Repository c)" "database c = Base (Repository c)" "Repository c \<noteq> []"
    by (simp_all add: defaultRepo_nonempty)
next
  assume c: "fst (fst (ReadConfig fs fl out)) = Some c" and f: "flag_repo fl = []"
     and n: "\<forall>ini. fs (flag_config fl) = Some (Inr ini) \<longrightarrow> Repo ini = []"
  from ReadConfig_Some [OF c] obtain conf0 out0 where
    d: "fst (fst (derive_and_dispatch fl conf0 out0)) = Some c" and
    o: "fs (flag_config fl) = None \<and> conf0 = parsed fl \<or>
        (\<exists>ini. fs (flag_config fl) = Some (Inr ini) \<and>
               readIniInto fs (flag_config fl) (parsed fl) = Inr conf0)"
    by blast
  from o f n have "Repository conf0 = []"
    by (auto simp: Repository_parsed readIniInto_def DecodeFile_def)
  with derive_and_dispatch_conf [OF d] have r: "Repository c = defaultRepo"
    and p: "path c = Dir defaultRepo" and b: "database c = Base defaultRepo" by simp_all
  show "Repository c = defaultRepo" by (rule r)
  show "path c = ''/srv/abs''" using p by (simp add: Dir_Base_defaultRepo)
  show "database c = ''atlas.db.tar.gz''" using b by (simp add: Dir_Base_defaultRepo)
qed

text \<open>
The theorem at \<^verbatim>\<open>repoctl list\<close> with no configuration file and no \<^verbatim>\<open>--repo\<close>.
\<close>

theorem path_database_derived_witness:
  "\<exists>c. fst (fst (ReadConfig Map.empty ((default_flags ''/home/u'')\<lparr>flag_args := [''list'']\<rparr>) [])) = Some c
      \<and> Repository c = ''/srv/abs/atlas.db.tar.gz'' \<and> path c = ''/srv/abs''
      \<and> database c = ''atlas.db.tar.gz'' \<and> path c = Dir (Repository c)
      \<and> database c = Base (Repository c)"
proof -
  let ?fl = "(default_flags ''/home/u'')\<lparr>flag_args := [''list'']\<rparr>"
  obtain c where c: "fst (fst (ReadConfig Map.empty ?fl [])) = Some c"
    by (simp add: ReadConfig_def derive_and_dispatch_def parsed_def default_flags_def
          FileExists_def actions_def Let_def zeroConfig_def)
  have f: "flag_repo ?fl = []" by (simp add: default_flags_def)
  have n: "\<forall>ini. Map.empty (flag_config ?fl) = Some (Inr ini) \<longrightarrow> Repo ini = []" by simp
  note t = path_database_derived [of "[]" Map.empty ?fl "[]" c]
  from t c have 1: "path c = Dir (Repository c)" "database c = Base (Repository c)" by blast+
  from t c f n have 2: "Repository c = defaultRepo" "path c = ''/srv/abs''"
      "database c = ''atlas.db.tar.gz''" by blast+
  from c 1 2 show ?thesis by (simp add: defaultRepo_def)
qed

section \<open>Properties of the reconciliation engine's contracts\<close>

subsection \<open>C4: parsing a filename and serializing it again\<close>

text \<open>
  Splitting at the last dash and stripping the extension lose nothing: the string is the
  two parts with the separator between them.
\<close>

lemma rsplit_dash_append:
  assumes "rsplit_dash s = Some (a, b)"
  shows "s = a @ CHR ''-'' # b"
proof -
  let ?P = "\<lambda>x. x \<noteq> CHR ''-''"
  from assms have m: "CHR ''-'' \<in> set s"
    and a: "a = butlast (rev (dropWhile ?P (rev s)))"
    and b: "b = rev (takeWhile ?P (rev s))"
    by (auto simp: rsplit_dash_def split: if_splits)
  from m have "dropWhile ?P (rev s) \<noteq> []" by (simp add: dropWhile_eq_Nil_conv)
  moreover have "dropWhile ?P (rev s) = x # xs \<Longrightarrow> x = CHR ''-''" for x xs
    using hd_dropWhile [of ?P "rev s"] by force
  ultimately obtain xs where d: "dropWhile ?P (rev s) = CHR ''-'' # xs"
    by (cases "dropWhile ?P (rev s)") auto
  have "rev s = takeWhile ?P (rev s) @ dropWhile ?P (rev s)" by simp
  then have "s = rev (dropWhile ?P (rev s)) @ rev (takeWhile ?P (rev s))"
    by (metis rev_append rev_rev_ident)
  with a b d show ?thesis by simp
qed

lemma strip_ext_append:
  assumes "strip_ext ext f = Some stem"
  shows "f = stem @ CHR ''.'' # ext"
  using assms
  by (auto simp: strip_ext_def Let_def split: if_splits) (metis append_take_drop_id)

lemma parse_example:
  "parse ''pkg.tar.xz'' ''pacman-3.5.3-1-i686.pkg.tar.xz'' =
     Inr \<lparr>name = ''pacman'', version = ''3.5.3'', release = ''1'', architecture = ''i686'',
          sourcePath = ''pacman-3.5.3-1-i686.pkg.tar.xz''\<rparr>"
  by code_simp

text \<open>
  Claim C4: for every well-formed package filename \<open>F\<close>, \<^verbatim>\<open>serialize(parse(F)) == F\<close>,
  byte for byte. A filename is well-formed when the parser accepts it; the parser and the
  serializer are the ones written from the specification above, for any extension.
\<close>

theorem serialize_parse_roundtrip:
  assumes "parse ext f = Inr p"
  shows "serialize ext p = f"
proof -
  from assms obtain stem r1 r2 where
    1: "strip_ext ext f = Some stem" and
    2: "rsplit_dash stem = Some (r1, architecture p)" and
    3: "rsplit_dash r1 = Some (r2, release p)" and
    4: "rsplit_dash r2 = Some (name p, version p)"
    by (auto simp: parse_def split: option.splits if_splits)
  from strip_ext_append [OF 1] rsplit_dash_append [OF 2] rsplit_dash_append [OF 3]
    rsplit_dash_append [OF 4]
  show ?thesis by (simp add: serialize_def)
qed

text \<open>
  The theorem at \<^verbatim>\<open>pacman-3.5.3-1-i686.pkg.tar.xz\<close>, the filename the program's help text
  gives as an example.
\<close>

theorem serialize_parse_roundtrip_witness:
  "parse ''pkg.tar.xz'' ''pacman-3.5.3-1-i686.pkg.tar.xz'' =
     Inr \<lparr>name = ''pacman'', version = ''3.5.3'', release = ''1'', architecture = ''i686'',
          sourcePath = ''pacman-3.5.3-1-i686.pkg.tar.xz''\<rparr>
   \<and> serialize ''pkg.tar.xz''
        \<lparr>name = ''pacman'', version = ''3.5.3'', release = ''1'', architecture = ''i686'',
         sourcePath = ''pacman-3.5.3-1-i686.pkg.tar.xz''\<rparr>
      = ''pacman-3.5.3-1-i686.pkg.tar.xz''"
  using serialize_parse_roundtrip [OF parse_example] parse_example by simp

subsection \<open>C5: the version comparator is a total order\<close>

text \<open>
  Each level of the comparator (numbers, alphabetic runs, single runs, lists of runs,
  version identities) has the same three properties: exchanging the sides flips the
  outcome, the outcome is \<open>EQ\<close> exactly for equal arguments, and \<open>LT\<close> is transitive.
\<close>

lemma cmp_nat_sym: "cmp_nat b a = flip (cmp_nat a b)"
  by (simp add: cmp_nat_def)


lemma cmp_nat_trans: "cmp_nat a b = LT \<Longrightarrow> cmp_nat b c = LT \<Longrightarrow> cmp_nat a c = LT"
  by (simp add: cmp_nat_def split: if_splits)





















subsection \<open>Disposing of obsolete files\<close>











subsection \<open>C3: replacing a version keeps the index on disk\<close>







text \<open>
  The order matters: disposing of the old file first leaves, in the same repository, an
  intermediate state whose index references a file that is gone.
\<close>

lemma dispose_first_leaves_index_dangling:
  "\<not> list_all index_on_disk
       (states False
          [Dispose ''pkg-1.0-1-x86_64.pkg.tar.xz'',
           CopyIn ''pkg-1.1-1-x86_64.pkg.tar.xz'' ''new contents'',
           IndexAdd ''pkg'' ''pkg-1.1-1-x86_64.pkg.tar.xz'']
          example_repo)"
  by (simp add: index_on_disk_def example_repo_def dispose_def)

subsection \<open>C6: backup mode moves obsolete files, otherwise they are deleted\<close>



end
